theory Spec2Isabelle
  imports Complex_Main
begin

section \<open>The 3D U-Net graph builder of \<^verbatim>\<open>unet_3D.py\<close>\<close>

text \<open>
  The program builds a computation graph by calling layers of an external library
  (Keras). A layer call takes tensors and returns a new tensor; the library keeps
  the graph. The embedding makes that state explicit: the graph is the list of layer
  instances in creation order, a tensor is a handle (the index of the layer instance
  that produced it) together with its shape, and every builder function takes the
  graph and returns the new tensor and the extended graph, or an error.

  Python numbers: \<open>dim\<close>, \<open>depth\<close> and tensor dimensions are unbounded integers
  (\<open>int\<close>). The parameters \<open>inc_rate\<close> and \<open>dropout\<close> are Python floats; they are
  modelled as exact rationals, which agrees with the source wherever the double
  product \<open>inc * dim\<close> is exact (all dyadic rates such as 2.0 and 1.5 on channel
  counts below \<open>2^53\<close>). The boolean parameters are \<open>bool\<close>.
\<close>

subsection \<open>Errors\<close>

text \<open>
  \<open>Exception\<close> is the error the source raises itself (line 53); \<open>ValueError\<close> is an
  error raised inside the layer library.
\<close>

datatype error = Exception string | ValueError string

subsection \<open>Layers of the external library\<close>

text \<open>
  A size argument is written in the source either as one integer (\<open>3\<close>, \<open>strides=2\<close>)
  or as a triple (\<open>(1, 2, 2)\<close>). The library expands one integer to the same value
  on all three spatial axes.
\<close>

datatype size_arg = Scalar int | Tuple3 int int int

fun normalize_tuple :: "size_arg \<Rightarrow> int \<times> int \<times> int" where
  "normalize_tuple (Scalar n) = (n, n, n)"
| "normalize_tuple (Tuple3 a b c) = (a, b, c)"

datatype padding = Valid | Same

text \<open>
  The layers the source instantiates, with the arguments the source passes:
  \<open>Conv3D filters kernel_size strides padding activation\<close> (the library's defaults
  are strides \<open>(1, 1, 1)\<close>, padding \<open>valid\<close> and no activation),
  \<open>Dropout rate\<close>, \<open>MaxPooling3D pool_size\<close>, \<open>UpSampling3D size\<close>, and
  \<open>Input(shape=...)\<close> as \<open>InputLayer shape\<close>.
\<close>

type_synonym shape = "int list"

datatype layer =
    InputLayer shape
  | Conv3D int size_arg size_arg padding "string option"
  | BatchNormalization
  | Dropout rat
  | MaxPooling3D size_arg
  | UpSampling3D size_arg
  | Concatenate

text \<open>
  Modelled from the spec: the layer library is not part of the repository. Section 6
  of the spec lists the primitives it provides (convolution with stride, kernel size
  and padding mode, pooling, upsampling, channel concatenation, dropout, batch
  normalization); section 7 says that malformed values such as zero channels fail
  inside the library. The shape rules below are the library's: a shape excludes the
  batch axis, so a volume is \<open>[depth, height, width, channels]\<close>; the length of a
  convolved or pooled axis is \<open>(n' + stride - 1) // stride\<close> with \<open>n' = n\<close> for
  padding \<open>same\<close> and \<open>n' = n - size + 1\<close> for padding \<open>valid\<close>; pooling strides
  default to the pool size; upsampling multiplies; concatenation is along the last
  axis and needs all other axes to agree. The three-dimensional layers accept only
  rank 4 (plus batch) inputs.
\<close>

definition conv_output_length :: "int \<Rightarrow> int \<Rightarrow> padding \<Rightarrow> int \<Rightarrow> int" where
  "conv_output_length input_length filter_size pad stride =
     ((case pad of Same \<Rightarrow> input_length | Valid \<Rightarrow> input_length - filter_size + 1)
        + stride - 1) div stride"

fun volume :: "shape list \<Rightarrow> (int \<times> int \<times> int \<times> int) option" where
  "volume [[d, h, w, c]] = Some (d, h, w, c)"
| "volume ss = None"

definition concat_shape :: "shape list \<Rightarrow> error + shape" where
  "concat_shape ss =
     (case ss of
        [s1, s2] \<Rightarrow>
          if s1 \<noteq> [] \<and> s2 \<noteq> [] \<and> butlast s1 = butlast s2
          then Inr (butlast s1 @ [last s1 + last s2])
          else Inl (ValueError ''Concatenate requires matching shapes except for the concat axis'')
      | _ \<Rightarrow> Inl (ValueError ''Concatenate takes two inputs''))"

definition same_shape :: "shape list \<Rightarrow> error + shape" where
  "same_shape ss = (case ss of [s] \<Rightarrow> Inr s | _ \<Rightarrow> Inl (ValueError ''one input expected''))"

definition compute_output_shape :: "layer \<Rightarrow> shape list \<Rightarrow> error + shape" where
  "compute_output_shape l ss =
     (case l of
        InputLayer s \<Rightarrow> (case ss of [] \<Rightarrow> Inr s | _ \<Rightarrow> Inl (ValueError ''no input expected''))
      | Conv3D filters kernel_size strides pad acti \<Rightarrow>
          (case volume ss of
             None \<Rightarrow> Inl (ValueError ''expected ndim=5'')
           | Some (d, h, w, c) \<Rightarrow>
               if filters \<le> 0 then Inl (ValueError ''filters must be positive'')
               else (case (normalize_tuple kernel_size, normalize_tuple strides) of
                       ((k1, k2, k3), (s1, s2, s3)) \<Rightarrow>
                         Inr [conv_output_length d k1 pad s1, conv_output_length h k2 pad s2,
                              conv_output_length w k3 pad s3, filters]))
      | BatchNormalization \<Rightarrow> same_shape ss
      | Dropout rate \<Rightarrow> same_shape ss
      | MaxPooling3D pool_size \<Rightarrow>
          (case volume ss of
             None \<Rightarrow> Inl (ValueError ''expected ndim=5'')
           | Some (d, h, w, c) \<Rightarrow>
               (case normalize_tuple pool_size of
                  (p1, p2, p3) \<Rightarrow>
                    Inr [conv_output_length d p1 Valid p1, conv_output_length h p2 Valid p2,
                         conv_output_length w p3 Valid p3, c]))
      | UpSampling3D sz \<Rightarrow>
          (case volume ss of
             None \<Rightarrow> Inl (ValueError ''expected ndim=5'')
           | Some (d, h, w, c) \<Rightarrow>
               (case normalize_tuple sz of (z1, z2, z3) \<Rightarrow> Inr [z1 * d, z2 * h, z3 * w, c]))
      | Concatenate \<Rightarrow> concat_shape ss)"

subsection \<open>Tensors, the graph and layer calls\<close>

record tensor =
  tid :: nat
  tshape :: shape

text \<open>
  One entry of the graph is one layer instance: the layer, the handles of the tensors
  it was called on, and the shape of its output. The output tensor of entry \<open>i\<close> has
  handle \<open>i\<close>.
\<close>

type_synonym graph = "(layer \<times> nat list \<times> shape) list"

type_synonym 'a build = "error + 'a \<times> graph"

text \<open>\<open>Layer(...)(inputs)\<close>: the library checks the shapes, then adds the instance.\<close>

definition call :: "layer \<Rightarrow> tensor list \<Rightarrow> graph \<Rightarrow> tensor build" where
  "call l ts g =
     (case compute_output_shape l (map tshape ts) of
        Inl e \<Rightarrow> Inl e
      | Inr s \<Rightarrow> Inr (\<lparr>tid = length g, tshape = s\<rparr>, g @ [(l, map tid ts, s)]))"

text \<open>Sequencing of statements: an error raised by one statement skips the rest.\<close>

definition bind :: "error + 'a \<Rightarrow> ('a \<Rightarrow> error + 'b) \<Rightarrow> error + 'b" where
  "bind r f = (case r of Inl e \<Rightarrow> Inl e | Inr x \<Rightarrow> f x)"

lemma bind_cong [fundef_cong]:
  "r = r' \<Longrightarrow> (\<And>x. r' = Inr x \<Longrightarrow> f x = f' x) \<Longrightarrow> bind r f = bind r' f'"
  by (simp add: bind_def split: sum.splits)

lemma bind_Inl [simp]: "bind (Inl e) f = Inl e"
  by (simp add: bind_def)

lemma bind_Inr [simp]: "bind (Inr x) f = f x"
  by (simp add: bind_def)

subsection \<open>The source functions\<close>

text \<open>
  \<open>conv_block(m, dim, acti, bn, res, do=0)\<close>, lines 25 to 36. The test \<open>if do\<close> on a
  number is true exactly when the number is not zero. The parameter \<open>dim\<close> is written
  \<open>dim'\<close>, since \<open>dim\<close> is a constant of the logic.
\<close>

definition conv_block ::
  "tensor \<Rightarrow> int \<Rightarrow> string \<Rightarrow> bool \<Rightarrow> bool \<Rightarrow> rat \<Rightarrow> graph \<Rightarrow> tensor build" where
  "conv_block m dim' acti bn res do g =
     bind (call (Conv3D dim' (Scalar 3) (Tuple3 1 1 1) Same (Some acti)) [m] g) (\<lambda>(n, g).
     bind (if bn then call BatchNormalization [n] g else Inr (n, g)) (\<lambda>(n, g).
     bind (if do \<noteq> 0 then call (Dropout do) [n] g else Inr (n, g)) (\<lambda>(n, g).
     bind (call (Conv3D dim' (Scalar 3) (Tuple3 1 1 1) Same (Some acti)) [n] g) (\<lambda>(n, g).
     bind (if bn then call BatchNormalization [n] g else Inr (n, g)) (\<lambda>(n, g).
     if res then call Concatenate [m, n] g else Inr (n, g))))))"

text \<open>\<open>int(x)\<close> on a float truncates towards zero.\<close>

definition py_int :: "rat \<Rightarrow> int" where
  "py_int x = (if 0 \<le> x then \<lfloor>x\<rfloor> else \<lceil>x\<rceil>)"

text \<open>
  \<open>level_block(m, dim, depth, inc, acti, do, bn, mp, up, res)\<close>, lines 39 to 58. The
  encoder and the inner levels are built before the test of \<open>up\<close>, so the error of
  line 53 is raised only after they have been built.
\<close>

function level_block ::
  "tensor \<Rightarrow> int \<Rightarrow> int \<Rightarrow> rat \<Rightarrow> string \<Rightarrow> rat \<Rightarrow> bool \<Rightarrow> bool \<Rightarrow> bool \<Rightarrow> bool \<Rightarrow> graph
     \<Rightarrow> tensor build" where
  "level_block m dim' depth inc acti do bn mp up res g =
     (if depth > 0 then
        bind (conv_block m dim' acti bn res 0 g) (\<lambda>(n, g).
        bind (if mp then call (MaxPooling3D (Tuple3 1 2 2)) [n] g
              else call (Conv3D dim' (Scalar 3) (Scalar 2) Same None) [n] g) (\<lambda>(m, g).
        bind (level_block m (py_int (inc * of_int dim')) (depth - 1) inc acti do bn mp up res g)
          (\<lambda>(m, g).
        bind (if up then
                bind (call (UpSampling3D (Tuple3 1 2 2)) [m] g) (\<lambda>(m, g).
                call (Conv3D dim' (Scalar 2) (Tuple3 1 1 1) Same (Some acti)) [m] g)
              else Inl (Exception ''Unet in 3D does not work without upsampling''))
          (\<lambda>(m, g).
        bind (call Concatenate [n, m] g) (\<lambda>(n, g).
        conv_block n dim' acti bn res 0 g)))))
      else conv_block m dim' acti bn res do g)"
  by pat_completeness auto
termination
  by (relation "measure (\<lambda>(m, dim', depth, inc, acti, do, bn, mp, up, res, g). nat depth)") auto

declare level_block.simps [simp del]

text \<open>
  \<open>UNet(img_shape, out_ch, start_ch, depth, inc_rate, activation, dropout, batchnorm,
  maxpool, upconv, residual)\<close>, lines 61 to 84. \<open>Model(inputs=i, outputs=o)\<close> wraps
  the two tensors and the graph between them. The variable \<open>o\<close> is written \<open>out\<close>.
\<close>

record model =
  inputs :: tensor
  outputs :: tensor
  layers :: graph

definition UNet ::
  "shape \<Rightarrow> int \<Rightarrow> int \<Rightarrow> int \<Rightarrow> rat \<Rightarrow> string \<Rightarrow> rat \<Rightarrow> bool \<Rightarrow> bool \<Rightarrow> bool \<Rightarrow> bool
     \<Rightarrow> error + model" where
  "UNet img_shape out_ch start_ch depth inc_rate activation dropout batchnorm maxpool upconv
        residual =
     bind (call (InputLayer img_shape) [] []) (\<lambda>(i, g).
     bind (level_block i start_ch depth inc_rate activation dropout batchnorm maxpool upconv
             residual g) (\<lambda>(out, g).
     bind (call (Conv3D out_ch (Scalar 1) (Tuple3 1 1 1) Valid (Some ''sigmoid'')) [out] g)
       (\<lambda>(out, g).
     Inr \<lparr>inputs = i, outputs = out, layers = g\<rparr>)))"

subsection \<open>Reading a graph\<close>

text \<open>
  The sequence of layers that \<open>conv_block\<close> (lines 31 to 36) and \<open>level_block\<close>
  (lines 46 to 57) create, in creation order. The builders above are shown to create
  exactly these layers (\<open>conv_block_layers\<close>, \<open>level_block_layers\<close>), so a
  property of the layers of a graph can be read off these lists.
\<close>

definition block_layers :: "int \<Rightarrow> string \<Rightarrow> bool \<Rightarrow> bool \<Rightarrow> rat \<Rightarrow> layer list" where
  "block_layers dim' acti bn res do =
     [Conv3D dim' (Scalar 3) (Tuple3 1 1 1) Same (Some acti)] @
     (if bn then [BatchNormalization] else []) @
     (if do \<noteq> 0 then [Dropout do] else []) @
     [Conv3D dim' (Scalar 3) (Tuple3 1 1 1) Same (Some acti)] @
     (if bn then [BatchNormalization] else []) @
     (if res then [Concatenate] else [])"

fun level_layers ::
  "int \<Rightarrow> nat \<Rightarrow> rat \<Rightarrow> string \<Rightarrow> rat \<Rightarrow> bool \<Rightarrow> bool \<Rightarrow> bool \<Rightarrow> layer list" where
  "level_layers dim' 0 inc acti do bn mp res = block_layers dim' acti bn res do"
| "level_layers dim' (Suc k) inc acti do bn mp res =
     block_layers dim' acti bn res 0 @
     [if mp then MaxPooling3D (Tuple3 1 2 2) else Conv3D dim' (Scalar 3) (Scalar 2) Same None] @
     level_layers (py_int (inc * of_int dim')) k inc acti do bn mp res @
     [UpSampling3D (Tuple3 1 2 2), Conv3D dim' (Scalar 2) (Tuple3 1 1 1) Same (Some acti),
      Concatenate] @
     block_layers dim' acti bn res 0"

text \<open>Selections of layers, and the graph without the shapes.\<close>

fun is_Dropout :: "layer \<Rightarrow> bool" where
  "is_Dropout (Dropout r) = True"
| "is_Dropout l = False"

fun is_pointwise :: "layer \<Rightarrow> bool" where
  "is_pointwise (Conv3D filters kernel_size strides pad acti) =
     (normalize_tuple kernel_size = (1, 1, 1))"
| "is_pointwise l = False"

definition wiring :: "graph \<Rightarrow> (layer \<times> nat list) list" where
  "wiring g = map (\<lambda>(l, ins, s). (l, ins)) g"

text \<open>
  An error of the code's own, as opposed to an error raised inside the layer library.
\<close>

definition own_error :: "error + 'a \<Rightarrow> bool" where
  "own_error r = (case r of Inl (Exception msg) \<Rightarrow> True | _ \<Rightarrow> False)"

section \<open>Properties\<close>

subsection \<open>Shapes along the encoder path\<close>

lemmas layer_defs =
  call_def compute_output_shape_def conv_output_length_def concat_shape_def same_shape_def





subsection \<open>The construction error\<close>






subsection \<open>The depth axis\<close>

text \<open>
  C2: no operation created by \<open>level_block\<close> should reduce or enlarge the first spatial
  (depth) axis. The pooling of line 47 and the upsampling of line 50 are written with
  the triple \<open>(1, 2, 2)\<close>, but the strided convolution of line 47 is written with
  \<open>strides=2\<close>, which the library expands to \<open>(2, 2, 2)\<close>: it halves the depth axis
  too. The upsampling never restores it, so with \<open>maxpool = False\<close> the merge of line 54
  is refused for every volume of more than one slice. The theorem evaluates the code
  on the volume \<open>(8, 64, 64, 1)\<close> with \<open>depth = 1\<close>: the strided convolution turns
  eight slices into four, the pooling keeps eight, and the model is built with
  \<open>maxpool = True\<close> but not with \<open>maxpool = False\<close>.
\<close>

theorem strided_conv_halves_depth_axis:
  "normalize_tuple (Scalar 2) = (2, 2, 2) \<and>
   compute_output_shape (Conv3D 64 (Scalar 3) (Scalar 2) Same None) [[8, 64, 64, 64]] =
     Inr [4, 32, 32, 64] \<and>
   compute_output_shape (MaxPooling3D (Tuple3 1 2 2)) [[8, 64, 64, 64]] = Inr [8, 32, 32, 64] \<and>
   UNet [8, 64, 64, 1] 1 64 1 2 ''relu'' (1/2) False False True False =
     Inl (ValueError ''Concatenate requires matching shapes except for the concat axis'') \<and>
   \<not> isl (UNet [8, 64, 64, 1] 1 64 1 2 ''relu'' (1/2) False True True False)"
  by code_simp

subsection \<open>The output shape\<close>








subsection \<open>The layers of a graph\<close>

lemma bind_eq_Inr: "(bind r f = Inr y) = (\<exists>x. r = Inr x \<and> f x = Inr y)"
  by (cases r) simp_all

lemma call_Inr:
  "call l ts g = Inr (t, g') \<Longrightarrow> g' = g @ [(l, map tid ts, tshape t)] \<and> tid t = length g"
  by (auto simp: call_def split: sum.splits)

lemma call_layers: "call l ts g = Inr (t, g') \<Longrightarrow> map fst g' = map fst g @ [l]"
  by (auto dest: call_Inr)

lemma bind_InrD:
  "bind r f = Inr y \<Longrightarrow> \<exists>a b. r = Inr (a, b) \<and> f (a, b) = Inr y"
  by (cases r) auto

lemma opt_call_layers:
  "(if b then call l ts g else Inr (n, g)) = Inr (t, g') \<Longrightarrow>
   map fst g' = map fst g @ (if b then [l] else [])"
  by (cases b) (auto dest: call_layers)

lemma conv_block_Inr:
  assumes "conv_block m dim' acti bn res do g = Inr (t, g')"
  obtains n1 g1 n2 g2 n3 g3 n4 g4 n5 g5 where
    "call (Conv3D dim' (Scalar 3) (Tuple3 1 1 1) Same (Some acti)) [m] g = Inr (n1, g1)"
    "(if bn then call BatchNormalization [n1] g1 else Inr (n1, g1)) = Inr (n2, g2)"
    "(if do \<noteq> 0 then call (Dropout do) [n2] g2 else Inr (n2, g2)) = Inr (n3, g3)"
    "call (Conv3D dim' (Scalar 3) (Tuple3 1 1 1) Same (Some acti)) [n3] g3 = Inr (n4, g4)"
    "(if bn then call BatchNormalization [n4] g4 else Inr (n4, g4)) = Inr (n5, g5)"
    "(if res then call Concatenate [m, n5] g5 else Inr (n5, g5)) = Inr (t, g')"
proof -
  from bind_InrD[OF assms[unfolded conv_block_def]]
  obtain n1 g1 where 1:
    "call (Conv3D dim' (Scalar 3) (Tuple3 1 1 1) Same (Some acti)) [m] g = Inr (n1, g1)"
    and r1: "bind (if bn then call BatchNormalization [n1] g1 else Inr (n1, g1)) (\<lambda>(n, g).
     bind (if do \<noteq> 0 then call (Dropout do) [n] g else Inr (n, g)) (\<lambda>(n, g).
     bind (call (Conv3D dim' (Scalar 3) (Tuple3 1 1 1) Same (Some acti)) [n] g) (\<lambda>(n, g).
     bind (if bn then call BatchNormalization [n] g else Inr (n, g)) (\<lambda>(n, g).
     if res then call Concatenate [m, n] g else Inr (n, g))))) = Inr (t, g')"
    by auto
  from bind_InrD[OF r1] obtain n2 g2 where 2:
    "(if bn then call BatchNormalization [n1] g1 else Inr (n1, g1)) = Inr (n2, g2)"
    and r2: "bind (if do \<noteq> 0 then call (Dropout do) [n2] g2 else Inr (n2, g2)) (\<lambda>(n, g).
     bind (call (Conv3D dim' (Scalar 3) (Tuple3 1 1 1) Same (Some acti)) [n] g) (\<lambda>(n, g).
     bind (if bn then call BatchNormalization [n] g else Inr (n, g)) (\<lambda>(n, g).
     if res then call Concatenate [m, n] g else Inr (n, g)))) = Inr (t, g')"
    by auto
  from bind_InrD[OF r2] obtain n3 g3 where 3:
    "(if do \<noteq> 0 then call (Dropout do) [n2] g2 else Inr (n2, g2)) = Inr (n3, g3)"
    and r3: "bind (call (Conv3D dim' (Scalar 3) (Tuple3 1 1 1) Same (Some acti)) [n3] g3)
      (\<lambda>(n, g).
     bind (if bn then call BatchNormalization [n] g else Inr (n, g)) (\<lambda>(n, g).
     if res then call Concatenate [m, n] g else Inr (n, g))) = Inr (t, g')"
    by auto
  from bind_InrD[OF r3] obtain n4 g4 where 4:
    "call (Conv3D dim' (Scalar 3) (Tuple3 1 1 1) Same (Some acti)) [n3] g3 = Inr (n4, g4)"
    and r4: "bind (if bn then call BatchNormalization [n4] g4 else Inr (n4, g4)) (\<lambda>(n, g).
     if res then call Concatenate [m, n] g else Inr (n, g)) = Inr (t, g')"
    by auto
  from bind_InrD[OF r4] obtain n5 g5 where 5:
    "(if bn then call BatchNormalization [n4] g4 else Inr (n4, g4)) = Inr (n5, g5)"
    and 6: "(if res then call Concatenate [m, n5] g5 else Inr (n5, g5)) = Inr (t, g')"
    by auto
  from 1 2 3 4 5 6 show thesis by (rule that)
qed

lemma conv_block_layers:
  assumes "conv_block m dim' acti bn res do g = Inr (t, g')"
  shows "map fst g' = map fst g @ block_layers dim' acti bn res do"
proof (rule conv_block_Inr[OF assms], goal_cases)
  case s: (1 n1 g1 n2 g2 n3 g3 n4 g4 n5 g5)
  show ?case
    using call_layers[OF s(1)] opt_call_layers[OF s(2)] opt_call_layers[OF s(3)]
      call_layers[OF s(4)] opt_call_layers[OF s(5)] opt_call_layers[OF s(6)]
    by (simp add: block_layers_def)
qed

lemma level_block_base:
  "\<not> 0 < depth \<Longrightarrow>
   level_block m dim' depth inc acti do bn mp up res g = conv_block m dim' acti bn res do g"
  by (subst level_block.simps) simp

lemma level_block_rec:
  "0 < depth \<Longrightarrow>
   level_block m dim' depth inc acti do bn mp up res g =
     bind (conv_block m dim' acti bn res 0 g) (\<lambda>(n, g).
     bind (if mp then call (MaxPooling3D (Tuple3 1 2 2)) [n] g
           else call (Conv3D dim' (Scalar 3) (Scalar 2) Same None) [n] g) (\<lambda>(m, g).
     bind (level_block m (py_int (inc * of_int dim')) (depth - 1) inc acti do bn mp up res g)
       (\<lambda>(m, g).
     bind (if up then
             bind (call (UpSampling3D (Tuple3 1 2 2)) [m] g) (\<lambda>(m, g).
             call (Conv3D dim' (Scalar 2) (Tuple3 1 1 1) Same (Some acti)) [m] g)
           else Inl (Exception ''Unet in 3D does not work without upsampling''))
       (\<lambda>(m, g).
     bind (call Concatenate [n, m] g) (\<lambda>(n, g).
     conv_block n dim' acti bn res 0 g)))))"
  by (subst level_block.simps) simp

lemma level_block_rec_Inr:
  assumes "0 < depth" "level_block m dim' depth inc acti do bn mp up res g = Inr (t, g')"
  obtains n g1 m2 g2 m3 g3 m4 g4 m5 g5 n6 g6 where
    "conv_block m dim' acti bn res 0 g = Inr (n, g1)"
    "call (if mp then MaxPooling3D (Tuple3 1 2 2)
           else Conv3D dim' (Scalar 3) (Scalar 2) Same None) [n] g1 = Inr (m2, g2)"
    "level_block m2 (py_int (inc * of_int dim')) (depth - 1) inc acti do bn mp up res g2 =
       Inr (m3, g3)"
    "up"
    "call (UpSampling3D (Tuple3 1 2 2)) [m3] g3 = Inr (m4, g4)"
    "call (Conv3D dim' (Scalar 2) (Tuple3 1 1 1) Same (Some acti)) [m4] g4 = Inr (m5, g5)"
    "call Concatenate [n, m5] g5 = Inr (n6, g6)"
    "conv_block n6 dim' acti bn res 0 g6 = Inr (t, g')"
proof -
  from assms(2)[unfolded level_block_rec[OF assms(1)]]
  obtain n g1 where 1: "conv_block m dim' acti bn res 0 g = Inr (n, g1)"
    and r1: "bind (if mp then call (MaxPooling3D (Tuple3 1 2 2)) [n] g1
           else call (Conv3D dim' (Scalar 3) (Scalar 2) Same None) [n] g1) (\<lambda>(m, g).
     bind (level_block m (py_int (inc * of_int dim')) (depth - 1) inc acti do bn mp up res g)
       (\<lambda>(m, g).
     bind (if up then
             bind (call (UpSampling3D (Tuple3 1 2 2)) [m] g) (\<lambda>(m, g).
             call (Conv3D dim' (Scalar 2) (Tuple3 1 1 1) Same (Some acti)) [m] g)
           else Inl (Exception ''Unet in 3D does not work without upsampling''))
       (\<lambda>(m, g).
     bind (call Concatenate [n, m] g) (\<lambda>(n, g).
     conv_block n dim' acti bn res 0 g)))) = Inr (t, g')"
    by (auto simp: bind_eq_Inr)
  from r1 obtain m2 g2 where 2: "call (if mp then MaxPooling3D (Tuple3 1 2 2)
           else Conv3D dim' (Scalar 3) (Scalar 2) Same None) [n] g1 = Inr (m2, g2)"
    and r2: "bind (level_block m2 (py_int (inc * of_int dim')) (depth - 1) inc acti do bn mp up
        res g2)
       (\<lambda>(m, g).
     bind (if up then
             bind (call (UpSampling3D (Tuple3 1 2 2)) [m] g) (\<lambda>(m, g).
             call (Conv3D dim' (Scalar 2) (Tuple3 1 1 1) Same (Some acti)) [m] g)
           else Inl (Exception ''Unet in 3D does not work without upsampling''))
       (\<lambda>(m, g).
     bind (call Concatenate [n, m] g) (\<lambda>(n, g).
     conv_block n dim' acti bn res 0 g))) = Inr (t, g')"
    by (auto simp: bind_eq_Inr split: if_splits)
  from r2 obtain m3 g3 where 3: "level_block m2 (py_int (inc * of_int dim')) (depth - 1) inc acti
      do bn mp up res g2 = Inr (m3, g3)"
    and r3: "bind (if up then
             bind (call (UpSampling3D (Tuple3 1 2 2)) [m3] g3) (\<lambda>(m, g).
             call (Conv3D dim' (Scalar 2) (Tuple3 1 1 1) Same (Some acti)) [m] g)
           else Inl (Exception ''Unet in 3D does not work without upsampling''))
       (\<lambda>(m, g).
     bind (call Concatenate [n, m] g) (\<lambda>(n, g).
     conv_block n dim' acti bn res 0 g)) = Inr (t, g')"
    by (auto simp: bind_eq_Inr)
  from r3 have up: "up" by (cases up) simp_all
  from r3 up obtain m4 g4 m5 g5 where 4: "call (UpSampling3D (Tuple3 1 2 2)) [m3] g3 = Inr (m4, g4)"
    and 5: "call (Conv3D dim' (Scalar 2) (Tuple3 1 1 1) Same (Some acti)) [m4] g4 = Inr (m5, g5)"
    and r5: "bind (call Concatenate [n, m5] g5) (\<lambda>(n, g).
     conv_block n dim' acti bn res 0 g) = Inr (t, g')"
    by (auto simp: bind_eq_Inr)
  from r5 obtain n6 g6 where 6: "call Concatenate [n, m5] g5 = Inr (n6, g6)"
    and 7: "conv_block n6 dim' acti bn res 0 g6 = Inr (t, g')"
    by (auto simp: bind_eq_Inr)
  from 1 2 3 up 4 5 6 7 show thesis by (rule that)
qed

lemma level_block_layers:
  "nat depth = k \<Longrightarrow> level_block m dim' depth inc acti do bn mp up res g = Inr (t, g') \<Longrightarrow>
   map fst g' = map fst g @ level_layers dim' k inc acti do bn mp res"
proof (induction k arbitrary: depth m dim' g t g')
  case 0
  then show ?case
    by (auto simp: level_block_base dest: conv_block_layers)
next
  case (Suc k)
  then have dep: "0 < depth" "nat (depth - 1) = k" by auto
  show ?case
  proof (rule level_block_rec_Inr[OF dep(1) Suc.prems(2)], goal_cases)
    case s: (1 n g1 m2 g2 m3 g3 m4 g4 m5 g5 n6 g6)
    show ?case
      using conv_block_layers[OF s(1)] call_layers[OF s(2)] Suc.IH[OF dep(2) s(3)]
        call_layers[OF s(5)] call_layers[OF s(6)] call_layers[OF s(7)] conv_block_layers[OF s(8)]
      by simp
  qed
qed

lemma call_Input:
  "call (InputLayer s) [] [] = Inr (\<lparr>tid = 0, tshape = s\<rparr>, [(InputLayer s, [], s)])"
  by (simp add: call_def compute_output_shape_def)

lemma UNet_Inr:
  assumes "UNet img_shape out_ch start_ch depth inc_rate activation dropout batchnorm maxpool upconv
     residual = Inr M"
  obtains out g where
    "level_block \<lparr>tid = 0, tshape = img_shape\<rparr> start_ch depth inc_rate activation dropout
       batchnorm maxpool upconv residual [(InputLayer img_shape, [], img_shape)] = Inr (out, g)"
    "call (Conv3D out_ch (Scalar 1) (Tuple3 1 1 1) Valid (Some ''sigmoid'')) [out] g =
       Inr (outputs M, layers M)"
    "inputs M = \<lparr>tid = 0, tshape = img_shape\<rparr>"
  using assms
  by (auto simp: UNet_def bind_eq_Inr call_Input)

lemma not_isl_Inr: "\<not> isl r \<Longrightarrow> \<exists>x. r = Inr x"
  by (cases r) simp_all

lemma wiring_append [simp]: "wiring (g @ h) = wiring g @ wiring h"
  by (simp add: wiring_def)

lemma length_wiring [simp]: "length (wiring g) = length g"
  by (simp add: wiring_def)

lemma call_wiring:
  "call l ts g = Inr (t, g') \<Longrightarrow>
   wiring g' = wiring g @ [(l, map tid ts)] \<and> tid t = length g \<and> length g' = Suc (length g)"
  by (auto simp: wiring_def dest: call_Inr)

lemma opt_call_wiring:
  "(if b then call l [n] g else Inr (n, g)) = Inr (t, g') \<Longrightarrow>
   wiring g' = wiring g @ (if b then [(l, [tid n])] else []) \<and>
   tid t = (if b then length g else tid n) \<and> length g' = length g + (if b then 1 else 0)"
  by (cases b) (auto dest: call_wiring)

lemma conv_block_wiring:
  assumes "conv_block m dim' acti bn res do g = Inr (t, g')"
  shows "wiring g' = wiring g @
     [(Conv3D dim' (Scalar 3) (Tuple3 1 1 1) Same (Some acti), [tid m])] @
     (if bn then [(BatchNormalization, [length g])] else []) @
     (if do \<noteq> 0 then [(Dropout do, [length g + (if bn then 1 else 0)])] else []) @
     [(Conv3D dim' (Scalar 3) (Tuple3 1 1 1) Same (Some acti),
       [length g + (if bn then 1 else 0) + (if do \<noteq> 0 then 1 else 0)])] @
     (if bn then [(BatchNormalization,
                   [length g + (if bn then 1 else 0) + (if do \<noteq> 0 then 1 else 0) + 1])] else []) @
     (if res then [(Concatenate,
                    [tid m, length g + (if bn then 2 else 0) + (if do \<noteq> 0 then 1 else 0) + 1])]
      else [])"
proof (rule conv_block_Inr[OF assms], goal_cases)
  case s: (1 n1 g1 n2 g2 n3 g3 n4 g4 n5 g5)
  note w = call_wiring[OF s(1)] opt_call_wiring[OF s(2)] opt_call_wiring[OF s(3)]
      call_wiring[OF s(4)] opt_call_wiring[OF s(5)]
  have 6: "wiring g' = wiring g5 @ (if res then [(Concatenate, [tid m, tid n5])] else [])"
    using s(6) by (cases res) (auto dest: call_wiring)
  show ?case
    using w 6 by (cases bn; cases "do = 0"; cases res; simp)
qed

subsection \<open>Dropout\<close>

lemma block_dropouts:
  "filter is_Dropout (block_layers dim' acti bn res do) = (if do \<noteq> 0 then [Dropout do] else [])"
  by (simp add: block_layers_def)

lemma level_dropouts:
  "filter is_Dropout (level_layers dim' k inc acti do bn mp res) =
     (if do \<noteq> 0 then [Dropout do] else [])"
  by (induction k arbitrary: dim') (auto simp: block_dropouts)

text \<open>
  C6: the dropout rate reaches \<open>conv_block\<close> only in the base case of \<open>level_block\<close>
  (line 57); the encoder block (line 46) and the decoder block (line 55) of every
  level with \<open>depth > 0\<close> are built with the default \<open>do = 0\<close>. So the graph of a
  model holds at most one \<open>Dropout\<close> layer, and it holds one exactly when the rate is
  not zero.
\<close>

theorem UNet_dropout_count:
  assumes "UNet img_shape out_ch start_ch depth inc_rate activation dropout batchnorm maxpool upconv
     residual = Inr M"
  shows "length (filter is_Dropout (map fst (layers M))) \<le> 1 \<and>
         (length (filter is_Dropout (map fst (layers M))) = 1) = (dropout \<noteq> 0)"
proof (rule UNet_Inr[OF assms], goal_cases)
  case s: (1 out g)
  show ?case
    using level_block_layers[OF refl s(1)] call_layers[OF s(2)]
    by (simp add: level_dropouts)
qed

theorem UNet_dropout_count_witness:
  "\<exists>M. UNet [8, 64, 64, 1] 1 64 2 2 ''relu'' (1/2) False True True False = Inr M \<and>
     length (filter is_Dropout (map fst (layers M))) \<le> 1 \<and>
     (length (filter is_Dropout (map fst (layers M))) = 1) = ((1/2::rat) \<noteq> 0)"
proof -
  have "\<not> isl (UNet [8, 64, 64, 1] 1 64 2 2 ''relu'' (1/2) False True True False)"
    by code_simp
  then obtain M where M: "UNet [8, 64, 64, 1] 1 64 2 2 ''relu'' (1/2) False True True False = Inr M"
    using not_isl_Inr by blast
  from UNet_dropout_count[OF M] M show ?thesis
    by (elim conjE) (intro exI conjI; assumption)
qed

subsection \<open>The final convolution\<close>

lemma block_pointwise: "filter is_pointwise (block_layers dim' acti bn res do) = []"
  by (simp add: block_layers_def)

lemma level_pointwise: "filter is_pointwise (level_layers dim' k inc acti do bn mp res) = []"
  by (induction k arbitrary: dim') (auto simp: block_pointwise)

text \<open>
  C7: \<open>UNet\<close> appends one convolution of kernel size 1 with \<open>out_ch\<close> filters and the
  activation \<open>sigmoid\<close> to the tensor returned by the level recursion; it is the
  output of the model and the last layer of the graph, its activation does not depend
  on the parameter \<open>activation\<close>, and it is the only convolution of kernel size 1 in
  the graph.
\<close>

theorem UNet_final_conv:
  assumes "UNet img_shape out_ch start_ch depth inc_rate activation dropout batchnorm maxpool upconv
     residual = Inr M"
  shows "\<exists>out g.
     level_block \<lparr>tid = 0, tshape = img_shape\<rparr> start_ch depth inc_rate activation dropout
       batchnorm maxpool upconv residual [(InputLayer img_shape, [], img_shape)] = Inr (out, g) \<and>
     layers M = g @ [(Conv3D out_ch (Scalar 1) (Tuple3 1 1 1) Valid (Some ''sigmoid''), [tid out],
                      tshape (outputs M))] \<and>
     tid (outputs M) = length g \<and>
     filter is_pointwise (map fst (layers M)) =
       [Conv3D out_ch (Scalar 1) (Tuple3 1 1 1) Valid (Some ''sigmoid'')]"
proof (rule UNet_Inr[OF assms], goal_cases)
  case s: (1 out g)
  from level_block_layers[OF refl s(1)] call_layers[OF s(2)]
  have "filter is_pointwise (map fst (layers M)) =
       [Conv3D out_ch (Scalar 1) (Tuple3 1 1 1) Valid (Some ''sigmoid'')]"
    by (simp add: level_pointwise)
  with s(1) call_Inr[OF s(2)] show ?case by simp
qed

theorem UNet_final_conv_witness:
  "\<exists>M. UNet [8, 64, 64, 1] 3 64 1 2 ''relu'' (1/2) False True True False = Inr M \<and>
     (\<exists>(out::tensor) g. layers M = g @ [(Conv3D 3 (Scalar 1) (Tuple3 1 1 1) Valid (Some ''sigmoid''),
                               [tid out], tshape (outputs M))] \<and>
              tid (outputs M) = length g) \<and>
     filter is_pointwise (map fst (layers M)) =
       [Conv3D 3 (Scalar 1) (Tuple3 1 1 1) Valid (Some ''sigmoid'')]"
proof -
  have "\<not> isl (UNet [8, 64, 64, 1] 3 64 1 2 ''relu'' (1/2) False True True False)"
    by code_simp
  then obtain M where M: "UNet [8, 64, 64, 1] 3 64 1 2 ''relu'' (1/2) False True True False = Inr M"
    using not_isl_Inr by blast
  from UNet_final_conv[OF M] M show ?thesis
    by (elim exE conjE) (intro exI conjI; assumption)
qed

subsection \<open>Where the dropout layer is inserted\<close>

lemma drop_wiring: "drop (length g) (wiring g @ xs) = xs"
  by simp

text \<open>
  C10: \<open>conv_block\<close> tests \<open>if do\<close> (line 33), which is true for every nonzero rate,
  negative ones included. Among the layers it adds there is a \<open>Dropout\<close> layer exactly
  when \<open>do\<close> is not zero; the layer carries the rate as given and is called on the
  tensor of the first convolution, or of its normalization when \<open>bn\<close> is set. For
  \<open>UNet\<close>, the graph of the model holds the layer \<open>Dropout dropout\<close> exactly when the
  parameter \<open>dropout\<close> is not zero.
\<close>

theorem conv_block_dropout:
  "(conv_block m dim' acti bn res do g = Inr (t, g') \<longrightarrow>
      filter (\<lambda>(l, ins). is_Dropout l) (drop (length g) (wiring g')) =
        (if do \<noteq> 0 then [(Dropout do, [length g + (if bn then 1 else 0)])] else []) \<and>
      take (if bn then 2 else 1) (drop (length g) (wiring g')) =
        (Conv3D dim' (Scalar 3) (Tuple3 1 1 1) Same (Some acti), [tid m]) #
        (if bn then [(BatchNormalization, [length g])] else [])) \<and>
   (UNet img_shape out_ch start_ch depth inc_rate activation dropout batchnorm maxpool upconv
      residual = Inr M \<longrightarrow>
      filter is_Dropout (map fst (layers M)) = (if dropout \<noteq> 0 then [Dropout dropout] else []))"
proof (intro conjI impI)
  assume a: "conv_block m dim' acti bn res do g = Inr (t, g')"
  show "filter (\<lambda>(l, ins). is_Dropout l) (drop (length g) (wiring g')) =
        (if do \<noteq> 0 then [(Dropout do, [length g + (if bn then 1 else 0)])] else [])"
    unfolding conv_block_wiring[OF a] drop_wiring by simp
  show "take (if bn then 2 else 1) (drop (length g) (wiring g')) =
        (Conv3D dim' (Scalar 3) (Tuple3 1 1 1) Same (Some acti), [tid m]) #
        (if bn then [(BatchNormalization, [length g])] else [])"
    unfolding conv_block_wiring[OF a] drop_wiring by simp
next
  assume a: "UNet img_shape out_ch start_ch depth inc_rate activation dropout batchnorm maxpool
      upconv residual = Inr M"
  show "filter is_Dropout (map fst (layers M)) = (if dropout \<noteq> 0 then [Dropout dropout] else [])"
  proof (rule UNet_Inr[OF a], goal_cases)
    case s: (1 out g)
    show ?case
      using level_block_layers[OF refl s(1)] call_layers[OF s(2)]
      by (simp add: level_dropouts)
  qed
qed

theorem conv_block_dropout_witness:
  "(\<exists>t g'. conv_block \<lparr>tid = 0, tshape = [8, 64, 64, 1]\<rparr> 64 ''relu'' True False (- 1 / 2)
              [(InputLayer [8, 64, 64, 1], [], [8, 64, 64, 1])] = Inr (t, g') \<and>
      filter (\<lambda>(l, ins). is_Dropout l) (drop 1 (wiring g')) = [(Dropout (- 1 / 2), [2])] \<and>
      take 2 (drop 1 (wiring g')) =
        [(Conv3D 64 (Scalar 3) (Tuple3 1 1 1) Same (Some ''relu''), [0]),
         (BatchNormalization, [1])]) \<and>
   (\<exists>M. UNet [8, 64, 64, 1] 1 64 1 2 ''relu'' (- 1 / 2) True True True False = Inr M \<and>
      filter is_Dropout (map fst (layers M)) = [Dropout (- 1 / 2)])"
proof -
  have "\<not> isl (conv_block \<lparr>tid = 0, tshape = [8, 64, 64, 1]\<rparr> 64 ''relu'' True False (- 1 / 2)
              [(InputLayer [8, 64, 64, 1], [], [8, 64, 64, 1])])"
    by code_simp
  then obtain t g' where c: "conv_block \<lparr>tid = 0, tshape = [8, 64, 64, 1]\<rparr> 64 ''relu'' True
     False (- 1 / 2) [(InputLayer [8, 64, 64, 1], [], [8, 64, 64, 1])] = Inr (t, g')"
    using not_isl_Inr by fastforce
  have "\<not> isl (UNet [8, 64, 64, 1] 1 64 1 2 ''relu'' (- 1 / 2) True True True False)"
    by code_simp
  then obtain M where M:
    "UNet [8, 64, 64, 1] 1 64 1 2 ''relu'' (- 1 / 2) True True True False = Inr M"
    using not_isl_Inr by blast
  from conv_block_dropout[of "\<lparr>tid = 0, tshape = [8, 64, 64, 1]\<rparr>" 64 "''relu''" True False
      "- 1 / 2" "[(InputLayer [8, 64, 64, 1], [], [8, 64, 64, 1])]" t g'
      "[8, 64, 64, 1]" 1 64 1 2 "''relu''" "- 1 / 2" True True True False M] c M
  show ?thesis by simp
qed

subsection \<open>The residual merge\<close>

text \<open>
  C8: on a volume \<open>m\<close> with \<open>c\<close> channels and for a positive channel count \<open>dim\<close>,
  \<open>conv_block\<close> with \<open>res = False\<close> returns the tensor \<open>n\<close> of its second convolution
  (of its normalization when \<open>bn\<close> is set: the last layer created), with \<open>dim\<close>
  channels; with \<open>res = True\<close> it builds the same layers and returns the concatenation
  of the block's input \<open>m\<close> and that tensor \<open>n\<close>, with \<open>c + dim\<close> channels.
\<close>

theorem conv_block_residual:
  assumes "tshape m = [d, h, w, c]" "0 < dim'"
  shows "\<exists>n gn.
     conv_block m dim' acti bn False do g = Inr (n, gn) \<and>
     tshape n = [d, h, w, dim'] \<and> tid n = length gn - 1 \<and>
     map fst (drop (length gn - (if bn then 2 else 1)) gn) =
       Conv3D dim' (Scalar 3) (Tuple3 1 1 1) Same (Some acti) #
       (if bn then [BatchNormalization] else []) \<and>
     conv_block m dim' acti bn True do g =
       Inr (\<lparr>tid = length gn, tshape = [d, h, w, c + dim']\<rparr>,
            gn @ [(Concatenate, [tid m, tid n], [d, h, w, c + dim'])])"
  using assms
  by (cases bn; cases "do = 0") (simp_all add: conv_block_def layer_defs)

theorem conv_block_residual_witness:
  "\<exists>n gn.
     conv_block \<lparr>tid = 0, tshape = [8, 64, 64, 1]\<rparr> 64 ''relu'' True False (1 / 2)
        [(InputLayer [8, 64, 64, 1], [], [8, 64, 64, 1])] = Inr (n, gn) \<and>
     tshape n = [8, 64, 64, 64] \<and> tid n = length gn - 1 \<and>
     map fst (drop (length gn - 2) gn) =
       [Conv3D 64 (Scalar 3) (Tuple3 1 1 1) Same (Some ''relu''), BatchNormalization] \<and>
     conv_block \<lparr>tid = 0, tshape = [8, 64, 64, 1]\<rparr> 64 ''relu'' True True (1 / 2)
        [(InputLayer [8, 64, 64, 1], [], [8, 64, 64, 1])] =
       Inr (\<lparr>tid = length gn, tshape = [8, 64, 64, 65]\<rparr>,
            gn @ [(Concatenate, [0, tid n], [8, 64, 64, 65])])"
  using conv_block_residual[of "\<lparr>tid = 0, tshape = [8, 64, 64, 1]\<rparr>" 8 64 64 1 64 "''relu''"
      True "1 / 2" "[(InputLayer [8, 64, 64, 1], [], [8, 64, 64, 1])]"]
  by simp

subsection \<open>No validation of the parameters\<close>


lemma own_error_ValueError [simp]: "\<not> own_error (Inl (ValueError s))"
  by (simp add: own_error_def)

lemma own_error_Exception [simp]: "own_error (Inl (Exception s))"
  by (simp add: own_error_def)












end
